theory Spec2Isabelle
  imports Main
begin

section \<open>Data model of \<open>vllm/model_executor/model_loader.py\<close>\<close>

text \<open>
  The model implementations imported from \<open>vllm.model_executor.models\<close>. The loader only
  compares them by identity (\<open>in\<close> on a list of classes) and calls them, so a class is a
  tag here.
\<close>

datatype model_class =
    AquilaForCausalLM
  | BaiChuanForCausalLM
  | BaichuanForCausalLM
  | BloomForCausalLM
  | FalconForCausalLM
  | GPT2LMHeadModel
  | GPTBigCodeForCausalLM
  | GPTJForCausalLM
  | GPTNeoXForCausalLM
  | InternLMForCausalLM
  | LlamaForCausalLM
  | MistralForCausalLM
  | MptForCausalLM
  | OPTForCausalLM
  | QWenLMHeadModel

text \<open>The floating-point \<open>torch.dtype\<close> values a default dtype can take.\<close>

datatype torch_dtype = torch_float16 | torch_bfloat16 | torch_float32 | torch_float64

text \<open>
  \<open>getattr(config, "architectures", [])\<close> distinguishes an object without the attribute
  from one that has it; an attribute that is there holds \<open>None\<close> or a list of names.
\<close>

datatype 'a attribute = Absent | Present 'a

datatype architectures_value = PyNone | PyList "string list"

record hf_config =
  architectures :: "architectures_value attribute"

text \<open>
  What the loader reads from a quantization config: \<open>get_min_capability()\<close> and
  \<open>get_supported_act_dtypes()\<close>.
\<close>

record quant_config =
  get_min_capability :: int
  get_supported_act_dtypes :: "torch_dtype list"

text \<open>The fields of \<open>ModelConfig\<close> that \<open>get_model\<close> reads.\<close>

record model_config =
  hf_config :: hf_config
  load_format :: string
  quantization :: "string option"
  dtype :: torch_dtype
  model :: string
  download_dir :: "string option"
  revision :: "string option"
  tensorizer_path :: "string option"

text \<open>
  An f-string is kept as the list of its pieces: literal text and the values formatted
  into it, in the order of the source. All five errors of the loader are
  \<open>ValueError\<close>s; iterating over \<open>None\<close> is a \<open>TypeError\<close>; an exception that comes out
  of a collaborator passes through unchanged and is tagged \<open>Propagated\<close>.
\<close>

datatype fragment =
    Text string
  | StrList "string list"
  | StrVal string
  | ClassVal model_class
  | IntVal int
  | DtypeVal torch_dtype
  | DtypeList "torch_dtype list"

datatype exn = ValueError "fragment list" | TypeError | Propagated string

text \<open>The positional arguments a model class is constructed with.\<close>

datatype ctor_arg = ConfigArg hf_config | QuantArg "quant_config option"

datatype weights =
    Uninitialized
  | DummyWeights
  | LoadedWeights string "string option" string "string option" "string option"

text \<open>The model object: what was constructed, where it lives, and its mode.\<close>

record nn_module =
  m_class :: model_class
  m_args :: "ctor_arg list"
  m_no_init :: bool
  m_on_device :: bool
  m_training :: bool
  m_weights :: weights

text \<open>
  The process state: torch's default dtype and the log of every call that leaves
  \<open>get_model\<close>, in the order the calls are made.
\<close>

datatype event =
    CallGetQuantConfig string string "string option"
  | CallGetDeviceCapability
  | PrintMemUsage
  | SetDefaultDtype torch_dtype
  | Construct model_class "ctor_arg list" bool
  | Cuda
  | InitializeDummyWeights
  | LoadWeights string "string option" string "string option" "string option"
  | Eval

record world =
  default_dtype :: torch_dtype
  trace :: "event list"

text \<open>
  The collaborators, as parameters: what the quantization config loader and the
  accelerator query return, and whether a call into tensorizer, torch or a model class
  raises (\<open>Some\<close> the exception) or succeeds (\<open>None\<close>).
\<close>

record env =
  get_quant_config :: "string \<Rightarrow> string \<Rightarrow> string option \<Rightarrow> string + quant_config"
  get_device_capability :: "string + int \<times> int"
  get_mem_usage :: "string + string"
  construct_raises :: "model_class \<Rightarrow> ctor_arg list \<Rightarrow> bool \<Rightarrow> string option"
  cuda_raises :: "nn_module \<Rightarrow> string option"
  initialize_dummy_weights_raises :: "nn_module \<Rightarrow> string option"
  load_weights_raises :: "nn_module \<Rightarrow> string option"
  eval_raises :: "nn_module \<Rightarrow> string option"

section \<open>Effects\<close>

type_synonym 'a effect = "world \<Rightarrow> (exn + 'a) \<times> world"

definition returnE :: "'a \<Rightarrow> 'a effect" where
  "returnE x w = (Inr x, w)"

definition raise :: "exn \<Rightarrow> 'a effect" where
  "raise e w = (Inl e, w)"

definition bindE :: "'a effect \<Rightarrow> ('a \<Rightarrow> 'b effect) \<Rightarrow> 'b effect" where
  "bindE m f w = (case m w of (Inl e, w') \<Rightarrow> (Inl e, w') | (Inr x, w') \<Rightarrow> f x w')"

definition log :: "event \<Rightarrow> world \<Rightarrow> world" where
  "log ev w = w\<lparr>trace := trace w @ [ev]\<rparr>"

text \<open>A call to a collaborator: it is logged, then it raises or returns.\<close>

definition call :: "event \<Rightarrow> string + 'a \<Rightarrow> 'a effect" where
  "call ev outcome w =
     (case outcome of
        Inl e \<Rightarrow> (Inl (Propagated e), log ev w)
      | Inr x \<Rightarrow> (Inr x, log ev w))"

definition outcome :: "string option \<Rightarrow> 'a \<Rightarrow> string + 'a" where
  "outcome raises x = (case raises of Some e \<Rightarrow> Inl e | None \<Rightarrow> Inr x)"

text \<open>\<open>torch.set_default_dtype\<close>.\<close>

definition torch_set_default_dtype :: "torch_dtype \<Rightarrow> world \<Rightarrow> world" where
  "torch_set_default_dtype d w = log (SetDefaultDtype d) (w\<lparr>default_dtype := d\<rparr>)"

text \<open>
  Modelled from the spec: the model classes, \<open>nn.Module.cuda\<close>, \<open>nn.Module.eval\<close>,
  \<open>initialize_dummy_weights\<close> and \<open>load_weights\<close> are not in the source file. A call
  that succeeds has the effect the collaborator interface gives it: a constructed module
  is on the host in training mode, \<open>cuda\<close> moves it to the accelerator, \<open>eval\<close> switches
  it to inference mode, the two weight routines fill the weights in place.
\<close>

definition construct :: "env \<Rightarrow> model_class \<Rightarrow> ctor_arg list \<Rightarrow> bool \<Rightarrow> nn_module effect" where
  "construct env cls args no_init =
     call (Construct cls args no_init)
       (outcome (construct_raises env cls args no_init)
          \<lparr>m_class = cls, m_args = args, m_no_init = no_init, m_on_device = False,
           m_training = True, m_weights = Uninitialized\<rparr>)"

definition cuda :: "env \<Rightarrow> nn_module \<Rightarrow> nn_module effect" where
  "cuda env m = call Cuda (outcome (cuda_raises env m) (m\<lparr>m_on_device := True\<rparr>))"

definition eval :: "env \<Rightarrow> nn_module \<Rightarrow> nn_module effect" where
  "eval env m = call Eval (outcome (eval_raises env m) (m\<lparr>m_training := False\<rparr>))"

definition initialize_dummy_weights :: "env \<Rightarrow> nn_module \<Rightarrow> nn_module effect" where
  "initialize_dummy_weights env m =
     call InitializeDummyWeights
       (outcome (initialize_dummy_weights_raises env m) (m\<lparr>m_weights := DummyWeights\<rparr>))"

definition load_weights ::
  "env \<Rightarrow> nn_module \<Rightarrow> string \<Rightarrow> string option \<Rightarrow> string \<Rightarrow> string option \<Rightarrow> string option
     \<Rightarrow> nn_module effect" where
  "load_weights env m name dir fmt revn path =
     call (LoadWeights name dir fmt revn path)
       (outcome (load_weights_raises env m)
          (m\<lparr>m_weights := LoadedWeights name dir fmt revn path\<rparr>))"

section \<open>The registry and the capability lists\<close>

text \<open>\<open>_MODEL_REGISTRY\<close>, in the order of the dict literal.\<close>

definition MODEL_REGISTRY :: "(string \<times> model_class) list" where
  "MODEL_REGISTRY =
     [(''AquilaModel'', AquilaForCausalLM),
      (''AquilaForCausalLM'', AquilaForCausalLM),
      (''BaiChuanForCausalLM'', BaiChuanForCausalLM),
      (''BaichuanForCausalLM'', BaichuanForCausalLM),
      (''BloomForCausalLM'', BloomForCausalLM),
      (''FalconForCausalLM'', FalconForCausalLM),
      (''GPT2LMHeadModel'', GPT2LMHeadModel),
      (''GPTBigCodeForCausalLM'', GPTBigCodeForCausalLM),
      (''GPTJForCausalLM'', GPTJForCausalLM),
      (''GPTNeoXForCausalLM'', GPTNeoXForCausalLM),
      (''InternLMForCausalLM'', InternLMForCausalLM),
      (''LlamaForCausalLM'', LlamaForCausalLM),
      (''LLaMAForCausalLM'', LlamaForCausalLM),
      (''MistralForCausalLM'', MistralForCausalLM),
      (''MptForCausalLM'', MptForCausalLM),
      (''MPTForCausalLM'', MptForCausalLM),
      (''OPTForCausalLM'', OPTForCausalLM),
      (''QWenLMHeadModel'', QWenLMHeadModel),
      (''RWForCausalLM'', FalconForCausalLM)]"

definition registry_keys :: "string list" where
  "registry_keys = map fst MODEL_REGISTRY"

definition MODEL_CLASSES_SUPPORT_QUANTIZATION :: "model_class list" where
  "MODEL_CLASSES_SUPPORT_QUANTIZATION = [LlamaForCausalLM, MistralForCausalLM]"

definition MODEL_CLASSES_SUPPORT_TENSORIZER :: "model_class list" where
  "MODEL_CLASSES_SUPPORT_TENSORIZER = [MistralForCausalLM]"

section \<open>\<open>_set_default_torch_dtype\<close>\<close>

text \<open>
  The generator behind \<open>contextlib.contextmanager\<close>: entering the \<open>with\<close> runs it up to
  the \<open>yield\<close>; a body that returns resumes it after the \<open>yield\<close>; a body that raises has
  its exception thrown into the generator at the \<open>yield\<close>, which stands outside any
  \<open>try\<close>, so the generator ends there and the exception goes on.
\<close>

definition set_default_torch_dtype :: "torch_dtype \<Rightarrow> 'a effect \<Rightarrow> 'a effect" where
  "set_default_torch_dtype d body w =
     (let old_dtype = default_dtype w;
          w1 = torch_set_default_dtype d w
      in case body w1 of
           (Inl e, w2) \<Rightarrow> (Inl e, w2)
         | (Inr x, w2) \<Rightarrow> (Inr x, torch_set_default_dtype old_dtype w2))"

section \<open>\<open>_get_model_architecture\<close>\<close>

text \<open>The \<open>for\<close> loop: the first name that is a key of the registry decides.\<close>

fun scan_architectures :: "string list \<Rightarrow> model_class option" where
  "scan_architectures [] = None"
| "scan_architectures (arch # rest) =
     (case map_of MODEL_REGISTRY arch of
        Some cls \<Rightarrow> Some cls
      | None \<Rightarrow> scan_architectures rest)"

definition get_model_architecture :: "hf_config \<Rightarrow> exn + model_class" where
  "get_model_architecture config =
     (case (case architectures config of Absent \<Rightarrow> PyList [] | Present v \<Rightarrow> v) of
        PyNone \<Rightarrow> Inl TypeError
      | PyList archs \<Rightarrow>
          (case scan_architectures archs of
             Some cls \<Rightarrow> Inr cls
           | None \<Rightarrow>
               Inl (ValueError
                 [Text ''Model architectures '', StrList archs,
                  Text '' are not supported for now. '',
                  Text ''Supported architectures: '', StrList registry_keys])))"

section \<open>\<open>get_model\<close>\<close>

text \<open>Lines 94 to 99: the requested dtype against the scheme's list.\<close>

definition check_act_dtype :: "model_config \<Rightarrow> string \<Rightarrow> quant_config \<Rightarrow> quant_config effect" where
  "check_act_dtype cfg q qc =
     (let supported_dtypes = get_supported_act_dtypes qc
      in if dtype cfg \<notin> set supported_dtypes
         then raise (ValueError
                [DtypeVal (dtype cfg), Text '' is not supported for quantization '',
                 Text ''method '', StrVal q, Text ''. Supported dtypes: '',
                 DtypeList supported_dtypes])
         else returnE qc)"

text \<open>Lines 78 to 99: the value of \<open>quant_config\<close> when the block is left.\<close>

definition validate_quantization ::
  "env \<Rightarrow> model_config \<Rightarrow> model_class \<Rightarrow> quant_config option effect" where
  "validate_quantization env cfg model_class =
     (case quantization cfg of
        None \<Rightarrow> returnE None
      | Some q \<Rightarrow>
          if model_class \<notin> set MODEL_CLASSES_SUPPORT_QUANTIZATION
          then raise (ValueError
                 [Text ''Quantization is not supported for '', ClassVal model_class, Text ''.''])
          else
            bindE (call (CallGetQuantConfig q (model cfg) (download_dir cfg))
                     (get_quant_config env q (model cfg) (download_dir cfg))) (\<lambda>qc.
            bindE (call CallGetDeviceCapability (get_device_capability env)) (\<lambda>capability.
            let capability = fst capability * 10 + snd capability
            in if capability < get_min_capability qc
               then raise (ValueError
                      [Text ''The quantization method '', StrVal q, Text '' is not '',
                       Text ''supported for the current GPU. '',
                       Text ''Minimum capability: '', IntVal (get_min_capability qc), Text ''. '',
                       Text ''Current capability: '', IntVal capability, Text ''.''])
               else bindE (check_act_dtype cfg q qc) (\<lambda>qc. returnE (Some qc)))))"

text \<open>Lines 104 to 107: the arguments bound by \<open>partial\<close>.\<close>

definition model_func_args :: "model_config \<Rightarrow> model_class \<Rightarrow> quant_config option \<Rightarrow> ctor_arg list" where
  "model_func_args cfg model_class qc =
     (if model_class \<in> set MODEL_CLASSES_SUPPORT_QUANTIZATION
      then [ConfigArg (hf_config cfg), QuantArg qc]
      else [ConfigArg (hf_config cfg)])"

text \<open>Lines 103 to 125: the body of the \<open>with\<close> statement.\<close>

definition create_and_load ::
  "env \<Rightarrow> model_config \<Rightarrow> model_class \<Rightarrow> quant_config option \<Rightarrow> nn_module effect" where
  "create_and_load env cfg model_class qc =
     bindE (construct env model_class (model_func_args cfg model_class qc)
              (load_format cfg = ''tensorizer'')) (\<lambda>m.
     if load_format cfg = ''dummy''
     then bindE (cuda env m) (\<lambda>m. initialize_dummy_weights env m)
     else bindE (load_weights env m (model cfg) (download_dir cfg) (load_format cfg)
                   (revision cfg) (tensorizer_path cfg)) (\<lambda>m.
          cuda env m))"

text \<open>Lines 101 to 126.\<close>

definition build_model ::
  "env \<Rightarrow> model_config \<Rightarrow> model_class \<Rightarrow> quant_config option \<Rightarrow> nn_module effect" where
  "build_model env cfg model_class qc =
     bindE (call PrintMemUsage (get_mem_usage env)) (\<lambda>_.
     bindE (set_default_torch_dtype (dtype cfg) (create_and_load env cfg model_class qc)) (\<lambda>m.
     eval env m))"

definition get_model :: "env \<Rightarrow> model_config \<Rightarrow> nn_module effect" where
  "get_model env cfg =
     bindE (\<lambda>w. (get_model_architecture (hf_config cfg), w)) (\<lambda>model_class.
     if load_format cfg = ''tensorizer'' \<and> model_class \<notin> set MODEL_CLASSES_SUPPORT_TENSORIZER
     then raise (ValueError
            [Text ''Tensorizer is not supported for '', ClassVal model_class, Text ''.''])
     else
       bindE (validate_quantization env cfg model_class) (\<lambda>qc.
       build_model env cfg model_class qc))"

section \<open>Concrete inputs\<close>

text \<open>
  An environment in which every collaborator succeeds: an AWQ-like scheme that needs
  capability 80 and supports float16, on an accelerator of capability (8, 6).
\<close>

definition awq_config :: quant_config where
  "awq_config = \<lparr>get_min_capability = 80, get_supported_act_dtypes = [torch_float16]\<rparr>"

definition ok_env :: env where
  "ok_env =
     \<lparr>get_quant_config = (\<lambda>q name dir. Inr awq_config),
      get_device_capability = Inr (8, 6),
      get_mem_usage = Inr ''0 MiB'',
      construct_raises = (\<lambda>cls args no_init. None),
      cuda_raises = (\<lambda>m. None),
      initialize_dummy_weights_raises = (\<lambda>m. None),
      load_weights_raises = (\<lambda>m. None),
      eval_raises = (\<lambda>m. None)\<rparr>"

definition config_of :: "string list \<Rightarrow> string \<Rightarrow> string option \<Rightarrow> torch_dtype \<Rightarrow> model_config" where
  "config_of archs fmt q d =
     \<lparr>hf_config = \<lparr>architectures = Present (PyList archs)\<rparr>,
      load_format = fmt, quantization = q, dtype = d, model = ''checkpoint'',
      download_dir = None, revision = None, tensorizer_path = None\<rparr>"

definition world0 :: world where
  "world0 = \<lparr>default_dtype = torch_float32, trace = []\<rparr>"

text \<open>The same environment on an accelerator of capability (7, 5).\<close>

definition old_gpu_env :: env where
  "old_gpu_env = ok_env\<lparr>get_device_capability := Inr (7, 5)\<rparr>"

text \<open>The same environment, except that \<open>load_weights\<close> raises.\<close>

definition missing_checkpoint_env :: env where
  "missing_checkpoint_env = ok_env\<lparr>load_weights_raises := (\<lambda>m. Some ''checkpoint not found'')\<rparr>"

section \<open>Helper lemmas\<close>

lemma registry_keys_distinct: "distinct (map fst MODEL_REGISTRY)"
  by (simp add: MODEL_REGISTRY_def)

lemma get_model_resolved:
  "get_model_architecture (hf_config cfg) = Inr cls \<Longrightarrow>
   get_model env cfg w =
     (if load_format cfg = ''tensorizer'' \<and> cls \<notin> set MODEL_CLASSES_SUPPORT_TENSORIZER
      then (Inl (ValueError
              [Text ''Tensorizer is not supported for '', ClassVal cls, Text ''.'']), w)
      else bindE (validate_quantization env cfg cls) (build_model env cfg cls) w)"
  by (simp add: get_model_def bindE_def raise_def)

lemma get_model_unresolved:
  "get_model_architecture (hf_config cfg) = Inl e \<Longrightarrow> get_model env cfg w = (Inl e, w)"
  by (simp add: get_model_def bindE_def)

lemma resolve_examples:
  "get_model_architecture \<lparr>architectures = Present (PyList [''LlamaForCausalLM''])\<rparr> = Inr LlamaForCausalLM"
  "get_model_architecture \<lparr>architectures = Present (PyList [''MistralForCausalLM''])\<rparr> = Inr MistralForCausalLM"
  "get_model_architecture \<lparr>architectures = Present (PyList [''OPTForCausalLM''])\<rparr> = Inr OPTForCausalLM"
  by (simp_all add: get_model_architecture_def MODEL_REGISTRY_def)

lemma config_of_simps:
  "load_format (config_of archs fmt q d) = fmt"
  "quantization (config_of archs fmt q d) = q"
  "dtype (config_of archs fmt q d) = d"
  "model (config_of archs fmt q d) = ''checkpoint''"
  "download_dir (config_of archs fmt q d) = None"
  "revision (config_of archs fmt q d) = None"
  "tensorizer_path (config_of archs fmt q d) = None"
  "hf_config (config_of archs fmt q d) = \<lparr>architectures = Present (PyList archs)\<rparr>"
  by (simp_all add: config_of_def)

lemma scan_architectures_none:
  "\<forall>a \<in> set archs. a \<notin> set (map fst MODEL_REGISTRY) \<Longrightarrow> scan_architectures archs = None"
proof (induction archs)
  case Nil
  then show ?case by simp
next
  case (Cons a archs)
  then have "map_of MODEL_REGISTRY a = None"
    by (simp add: map_of_eq_None_iff)
  with Cons show ?case by simp
qed

lemma scan_architectures_first:
  "i < length archs \<Longrightarrow> (archs ! i, cls) \<in> set MODEL_REGISTRY \<Longrightarrow>
   \<forall>j<i. archs ! j \<notin> set (map fst MODEL_REGISTRY) \<Longrightarrow> scan_architectures archs = Some cls"
proof (induction archs arbitrary: i)
  case Nil
  then show ?case by simp
next
  case (Cons a archs)
  show ?case
  proof (cases i)
    case 0
    with Cons.prems have "map_of MODEL_REGISTRY a = Some cls"
      using registry_keys_distinct by (simp add: map_of_is_SomeI)
    then show ?thesis by simp
  next
    case (Suc k)
    with Cons.prems have "a \<notin> set (map fst MODEL_REGISTRY)"
      by (metis nth_Cons_0 zero_less_Suc)
    then have none: "map_of MODEL_REGISTRY a = None"
      by (simp add: map_of_eq_None_iff)
    from Suc Cons.prems have "k < length archs" "(archs ! k, cls) \<in> set MODEL_REGISTRY"
      by simp_all
    moreover from Suc Cons.prems have "\<forall>j<k. archs ! j \<notin> set (map fst MODEL_REGISTRY)"
      by (metis Suc_less_eq nth_Cons_Suc)
    ultimately have "scan_architectures archs = Some cls"
      by (rule Cons.IH)
    with none show ?thesis by simp
  qed
qed

lemmas effect_defs = bindE_def returnE_def raise_def call_def log_def outcome_def
  torch_set_default_dtype_def set_default_torch_dtype_def

lemmas collab_defs = construct_def cuda_def eval_def initialize_dummy_weights_def load_weights_def

lemmas capability_defs = MODEL_CLASSES_SUPPORT_QUANTIZATION_def MODEL_CLASSES_SUPPORT_TENSORIZER_def

lemmas example_defs = ok_env_def awq_config_def world0_def

lemma validate_quantization_none:
  "quantization cfg = None \<Longrightarrow> validate_quantization env cfg cls w = (Inr None, w)"
  by (simp add: validate_quantization_def returnE_def)

lemma validate_quantization_unsupported:
  "quantization cfg = Some q \<Longrightarrow> cls \<notin> set MODEL_CLASSES_SUPPORT_QUANTIZATION \<Longrightarrow>
   validate_quantization env cfg cls w =
     (Inl (ValueError [Text ''Quantization is not supported for '', ClassVal cls, Text ''.'']), w)"
  by (simp add: validate_quantization_def raise_def)

lemma validate_quantization_checked:
  "quantization cfg = Some q \<Longrightarrow> cls \<in> set MODEL_CLASSES_SUPPORT_QUANTIZATION \<Longrightarrow>
   get_quant_config env q (model cfg) (download_dir cfg) = Inr qc \<Longrightarrow>
   get_device_capability env = Inr (major, minor) \<Longrightarrow>
   validate_quantization env cfg cls w =
     (if major * 10 + minor < get_min_capability qc
      then (Inl (ValueError
                   [Text ''The quantization method '', StrVal q, Text '' is not '',
                    Text ''supported for the current GPU. '',
                    Text ''Minimum capability: '', IntVal (get_min_capability qc), Text ''. '',
                    Text ''Current capability: '', IntVal (major * 10 + minor), Text ''.'']),
            w\<lparr>trace := trace w @ [CallGetQuantConfig q (model cfg) (download_dir cfg),
                                   CallGetDeviceCapability]\<rparr>)
      else bindE (check_act_dtype cfg q qc) (\<lambda>qc. returnE (Some qc))
            (w\<lparr>trace := trace w @ [CallGetQuantConfig q (model cfg) (download_dir cfg),
                                   CallGetDeviceCapability]\<rparr>))"
  by (simp add: validate_quantization_def bindE_def call_def log_def raise_def Let_def)

lemma build_model_never_ValueError:
  "fst (build_model env cfg cls qc w) \<noteq> Inl (ValueError msg)"
  by (simp add: build_model_def create_and_load_def effect_defs collab_defs
      split: sum.split option.split prod.split)

lemma build_model_events:
  "set (drop (length (trace w)) (trace (snd (build_model env cfg cls qc w)))) \<subseteq>
     {PrintMemUsage, SetDefaultDtype (dtype cfg), SetDefaultDtype (default_dtype w),
      Construct cls (model_func_args cfg cls qc) (load_format cfg = ''tensorizer''),
      Cuda, InitializeDummyWeights,
      LoadWeights (model cfg) (download_dir cfg) (load_format cfg) (revision cfg)
        (tensorizer_path cfg),
      Eval}"
  by (simp add: build_model_def create_and_load_def effect_defs collab_defs
      split: sum.split option.split prod.split)

lemma build_model_extends:
  "take (length (trace w)) (trace (snd (build_model env cfg cls qc w))) = trace w"
  by (simp add: build_model_def create_and_load_def effect_defs collab_defs
      split: sum.split option.split prod.split)

lemma build_model_restores:
  "case build_model env cfg cls qc w of
     (Inr m, w') \<Rightarrow> default_dtype w' = default_dtype w
   | (Inl e, w') \<Rightarrow> True"
  by (simp add: build_model_def create_and_load_def effect_defs collab_defs
      split: sum.split option.split prod.split)

lemma validate_quantization_state:
  "default_dtype (snd (validate_quantization env cfg cls w)) = default_dtype w \<and>
   take (length (trace w)) (trace (snd (validate_quantization env cfg cls w))) = trace w \<and>
   set (drop (length (trace w)) (trace (snd (validate_quantization env cfg cls w)))) \<subseteq>
     (case quantization cfg of
        None \<Rightarrow> {}
      | Some q \<Rightarrow> {CallGetQuantConfig q (model cfg) (download_dir cfg), CallGetDeviceCapability})"
  by (simp add: validate_quantization_def check_act_dtype_def effect_defs Let_def
      split: sum.split option.split prod.split)

lemma validate_quantization_result:
  "case validate_quantization env cfg cls w of
     (Inl e, w') \<Rightarrow> True
   | (Inr qco, w') \<Rightarrow>
       (case quantization cfg of
          None \<Rightarrow> qco = None
        | Some q \<Rightarrow>
            cls \<in> set MODEL_CLASSES_SUPPORT_QUANTIZATION \<and>
            (\<exists>qc major minor.
               qco = Some qc \<and>
               get_quant_config env q (model cfg) (download_dir cfg) = Inr qc \<and>
               get_device_capability env = Inr (major, minor) \<and>
               get_min_capability qc \<le> major * 10 + minor \<and>
               dtype cfg \<in> set (get_supported_act_dtypes qc)))"
  by (simp add: validate_quantization_def check_act_dtype_def effect_defs Let_def
      split: sum.split option.split prod.split)

lemma get_model_past_gate:
  assumes "get_model_architecture (hf_config cfg) = Inr cls"
    and "\<not> (load_format cfg = ''tensorizer'' \<and> cls \<notin> set MODEL_CLASSES_SUPPORT_TENSORIZER)"
  shows "get_model env cfg w =
     bindE (validate_quantization env cfg cls) (build_model env cfg cls) w"
proof -
  from assms(2) have "(if load_format cfg = ''tensorizer'' \<and>
        cls \<notin> set MODEL_CLASSES_SUPPORT_TENSORIZER
      then (Inl (ValueError
              [Text ''Tensorizer is not supported for '', ClassVal cls, Text ''.'']), w)
      else bindE (validate_quantization env cfg cls) (build_model env cfg cls) w) =
      bindE (validate_quantization env cfg cls) (build_model env cfg cls) w"
    by (rule if_not_P)
  with assms(1) show ?thesis by (simp only: get_model_resolved)
qed

lemma set_drop_trans:
  assumes "take (length xs) ys = xs" and "take (length ys) zs = ys"
  shows "set (drop (length xs) zs) = set (drop (length xs) ys) \<union> set (drop (length ys) zs)"
proof -
  from assms(1) obtain u where u: "ys = xs @ u"
    by (metis append_take_drop_id)
  from assms(2) obtain v where v: "zs = ys @ v"
    by (metis append_take_drop_id)
  show ?thesis by (simp add: u v)
qed

lemma set_default_torch_dtype_body_raises:
  "body (torch_set_default_dtype d w) = (Inl e, w') \<Longrightarrow>
   set_default_torch_dtype d body w = (Inl e, w')"
  by (simp add: set_default_torch_dtype_def)

section \<open>Architecture resolution\<close>

text \<open>
  C2. For every ordered list of candidate names, \<open>_get_model_architecture\<close> returns the
  implementation the registry maps the first candidate that is a registry key to (exact
  match, scan in order); when no candidate is a key it raises the \<open>ValueError\<close> whose
  message holds the attempted candidates and all the registered names.
\<close>

theorem get_model_architecture_first_match:
  "(i < length archs \<and> (archs ! i, cls) \<in> set MODEL_REGISTRY \<and>
      (\<forall>j<i. archs ! j \<notin> set registry_keys) \<longrightarrow>
      get_model_architecture (config\<lparr>architectures := Present (PyList archs)\<rparr>) = Inr cls) \<and>
   ((\<forall>a \<in> set unknown. a \<notin> set registry_keys) \<longrightarrow>
      get_model_architecture (config\<lparr>architectures := Present (PyList unknown)\<rparr>) =
        Inl (ValueError
          [Text ''Model architectures '', StrList unknown,
           Text '' are not supported for now. '',
           Text ''Supported architectures: '', StrList registry_keys]))"
proof (intro conjI impI)
  assume "i < length archs \<and> (archs ! i, cls) \<in> set MODEL_REGISTRY \<and>
      (\<forall>j<i. archs ! j \<notin> set registry_keys)"
  then have "scan_architectures archs = Some cls"
    unfolding registry_keys_def by (intro scan_architectures_first) blast+
  then show "get_model_architecture (config\<lparr>architectures := Present (PyList archs)\<rparr>) = Inr cls"
    by (simp add: get_model_architecture_def)
next
  assume "\<forall>a \<in> set unknown. a \<notin> set registry_keys"
  then have "scan_architectures unknown = None"
    unfolding registry_keys_def by (rule scan_architectures_none)
  then show "get_model_architecture (config\<lparr>architectures := Present (PyList unknown)\<rparr>) =
        Inl (ValueError
          [Text ''Model architectures '', StrList unknown,
           Text '' are not supported for now. '',
           Text ''Supported architectures: '', StrList registry_keys])"
    by (simp add: get_model_architecture_def)
qed

text \<open>
  The second candidate of three is the first registered one, under its legacy alias; a
  single unknown name is rejected with the full list of keys.
\<close>

theorem get_model_architecture_first_match_witness:
  "get_model_architecture
     \<lparr>architectures = Present (PyList [''NoSuchModel'', ''LLaMAForCausalLM'', ''OPTForCausalLM''])\<rparr>
     = Inr LlamaForCausalLM \<and>
   get_model_architecture \<lparr>architectures = Present (PyList [''UnknownModel''])\<rparr> =
     Inl (ValueError
       [Text ''Model architectures '', StrList [''UnknownModel''],
        Text '' are not supported for now. '',
        Text ''Supported architectures: '', StrList registry_keys])"
  using get_model_architecture_first_match [where i = 1 and archs = "[''NoSuchModel'', ''LLaMAForCausalLM'', ''OPTForCausalLM'']"
      and cls = LlamaForCausalLM and unknown = "[''UnknownModel'']"
      and config = "\<lparr>architectures = Absent\<rparr>"]
  by (simp add: registry_keys_def MODEL_REGISTRY_def)

text \<open>
  C10. A configuration object without an \<open>architectures\<close> attribute is resolved as the
  empty candidate list: the result is the unsupported-architecture \<open>ValueError\<close> with an
  empty list of attempted candidates, not an attribute error.
\<close>

theorem missing_architectures_attribute_unsupported:
  "get_model_architecture (config\<lparr>architectures := Absent\<rparr>) =
     Inl (ValueError
       [Text ''Model architectures '', StrList [],
        Text '' are not supported for now. '',
        Text ''Supported architectures: '', StrList registry_keys])"
  by (simp add: get_model_architecture_def)

section \<open>The load-format gate\<close>

text \<open>
  C7. When the load format is \<open>tensorizer\<close> and the resolved implementation is not in
  \<open>_MODEL_CLASSES_SUPPORT_TENSORIZER\<close>, \<open>get_model\<close> raises the \<open>ValueError\<close> that names
  the implementation and leaves the process state as it found it: no quantization
  validation and no construction has taken place.
\<close>

theorem tensorizer_unsupported_rejected_first:
  assumes "get_model_architecture (hf_config cfg) = Inr cls"
    and "load_format cfg = ''tensorizer''"
    and "cls \<notin> set MODEL_CLASSES_SUPPORT_TENSORIZER"
  shows "get_model env cfg w =
     (Inl (ValueError [Text ''Tensorizer is not supported for '', ClassVal cls, Text ''.'']), w)"
  using assms by (simp add: get_model_resolved)

text \<open>Llama with the tensorizer format, even with a quantization scheme requested.\<close>

theorem tensorizer_unsupported_rejected_first_witness:
  "get_model ok_env (config_of [''LlamaForCausalLM''] ''tensorizer'' (Some ''awq'') torch_float16) world0 =
     (Inl (ValueError
        [Text ''Tensorizer is not supported for '', ClassVal LlamaForCausalLM, Text ''.'']),
      world0)"
  using tensorizer_unsupported_rejected_first [of "config_of [''LlamaForCausalLM''] ''tensorizer'' (Some ''awq'') torch_float16"
      LlamaForCausalLM ok_env world0]
  by (simp add: resolve_examples config_of_simps MODEL_CLASSES_SUPPORT_TENSORIZER_def)

section \<open>Quantization validation\<close>

text \<open>
  C4, as stated for every configuration, fails: with the \<open>tensorizer\<close> load format the
  load-format gate comes first, and an implementation outside the quantization-capable
  list is outside the tensorizer-capable list too. OPT with format \<open>tensorizer\<close> and
  scheme \<open>awq\<close> gets the tensorizer error, not the quantization error.
\<close>

theorem tensorizer_error_precedes_quantization_error:
  "quantization (config_of [''OPTForCausalLM''] ''tensorizer'' (Some ''awq'') torch_float16)
     = Some ''awq'' \<and>
   get_model_architecture
     (hf_config (config_of [''OPTForCausalLM''] ''tensorizer'' (Some ''awq'') torch_float16))
     = Inr OPTForCausalLM \<and>
   OPTForCausalLM \<notin> set MODEL_CLASSES_SUPPORT_QUANTIZATION \<and>
   get_model ok_env (config_of [''OPTForCausalLM''] ''tensorizer'' (Some ''awq'') torch_float16)
       world0 =
     (Inl (ValueError
        [Text ''Tensorizer is not supported for '', ClassVal OPTForCausalLM, Text ''.'']),
      world0) \<and>
   fst (get_model ok_env
          (config_of [''OPTForCausalLM''] ''tensorizer'' (Some ''awq'') torch_float16) world0) \<noteq>
     Inl (ValueError
        [Text ''Quantization is not supported for '', ClassVal OPTForCausalLM, Text ''.''])"
  by (simp add: get_model_resolved resolve_examples config_of_simps capability_defs)

text \<open>
  C4 (amended). For every configuration whose load format is not \<open>tensorizer\<close>, that
  requests a quantization scheme, and whose resolved implementation is not in
  \<open>_MODEL_CLASSES_SUPPORT_QUANTIZATION\<close>, \<open>get_model\<close> raises the \<open>ValueError\<close> naming
  the implementation, whatever the dtype and whatever the collaborators would answer:
  the process state is unchanged, so neither the quantization config loader nor the
  capability query has been called.
\<close>

theorem quantization_unsupported_rejected:
  assumes "get_model_architecture (hf_config cfg) = Inr cls"
    and "load_format cfg \<noteq> ''tensorizer''"
    and "quantization cfg = Some q"
    and "cls \<notin> set MODEL_CLASSES_SUPPORT_QUANTIZATION"
  shows "get_model env cfg w =
     (Inl (ValueError [Text ''Quantization is not supported for '', ClassVal cls, Text ''.'']), w)"
  using assms by (simp add: get_model_resolved validate_quantization_unsupported bindE_def)

text \<open>OPT with scheme \<open>awq\<close> and the default load format.\<close>

theorem quantization_unsupported_rejected_witness:
  "get_model ok_env (config_of [''OPTForCausalLM''] ''auto'' (Some ''awq'') torch_float16) world0 =
     (Inl (ValueError
        [Text ''Quantization is not supported for '', ClassVal OPTForCausalLM, Text ''.'']),
      world0)"
  using quantization_unsupported_rejected [of "config_of [''OPTForCausalLM''] ''auto'' (Some ''awq'') torch_float16"
      OPTForCausalLM "''awq''" ok_env world0]
  by (simp add: resolve_examples config_of_simps capability_defs)

text \<open>
  C5. In quantization validation (the implementation supports quantization, the config
  loader returned \<open>qc\<close>, the accelerator reported \<open>(major, minor)\<close>) the capability is
  \<open>major * 10 + minor\<close>. Strictly below the scheme's minimum, \<open>get_model\<close> raises the
  \<open>ValueError\<close> that reports the minimum and the current value. At or above the minimum
  the capability error is not raised and the dtype-membership test decides: a requested
  dtype outside the scheme's list raises the dtype \<open>ValueError\<close>, a dtype in the list
  lets the load go on to lines 101 to 126 with the loaded quantization config.
\<close>

theorem capability_check:
  assumes "get_model_architecture (hf_config cfg) = Inr cls"
    and "\<not> (load_format cfg = ''tensorizer'' \<and> cls \<notin> set MODEL_CLASSES_SUPPORT_TENSORIZER)"
    and "quantization cfg = Some q"
    and "cls \<in> set MODEL_CLASSES_SUPPORT_QUANTIZATION"
    and "get_quant_config env q (model cfg) (download_dir cfg) = Inr qc"
    and "get_device_capability env = Inr (major, minor)"
  shows "(major * 10 + minor < get_min_capability qc \<longrightarrow>
      get_model env cfg w =
        (Inl (ValueError
           [Text ''The quantization method '', StrVal q, Text '' is not '',
            Text ''supported for the current GPU. '',
            Text ''Minimum capability: '', IntVal (get_min_capability qc), Text ''. '',
            Text ''Current capability: '', IntVal (major * 10 + minor), Text ''.'']),
         w\<lparr>trace := trace w @ [CallGetQuantConfig q (model cfg) (download_dir cfg),
                                CallGetDeviceCapability]\<rparr>)) \<and>
    (get_min_capability qc \<le> major * 10 + minor \<longrightarrow>
      (dtype cfg \<notin> set (get_supported_act_dtypes qc) \<longrightarrow>
         get_model env cfg w =
           (Inl (ValueError
              [DtypeVal (dtype cfg), Text '' is not supported for quantization '',
               Text ''method '', StrVal q, Text ''. Supported dtypes: '',
               DtypeList (get_supported_act_dtypes qc)]),
            w\<lparr>trace := trace w @ [CallGetQuantConfig q (model cfg) (download_dir cfg),
                                   CallGetDeviceCapability]\<rparr>)) \<and>
      (dtype cfg \<in> set (get_supported_act_dtypes qc) \<longrightarrow>
         get_model env cfg w =
           build_model env cfg cls (Some qc)
             (w\<lparr>trace := trace w @ [CallGetQuantConfig q (model cfg) (download_dir cfg),
                                    CallGetDeviceCapability]\<rparr>)))"
proof -
  have gate: "get_model env cfg w =
      bindE (validate_quantization env cfg cls) (build_model env cfg cls) w"
    using assms(1,2) by (rule get_model_past_gate)
  have below: "get_model env cfg w =
        (Inl (ValueError
           [Text ''The quantization method '', StrVal q, Text '' is not '',
            Text ''supported for the current GPU. '',
            Text ''Minimum capability: '', IntVal (get_min_capability qc), Text ''. '',
            Text ''Current capability: '', IntVal (major * 10 + minor), Text ''.'']),
         w\<lparr>trace := trace w @ [CallGetQuantConfig q (model cfg) (download_dir cfg),
                                CallGetDeviceCapability]\<rparr>)"
    if "major * 10 + minor < get_min_capability qc"
    using that assms(3-6) by (simp add: gate validate_quantization_checked bindE_def)
  have checked: "get_model env cfg w =
      bindE (check_act_dtype cfg q qc) (\<lambda>qc. build_model env cfg cls (Some qc))
        (w\<lparr>trace := trace w @ [CallGetQuantConfig q (model cfg) (download_dir cfg),
                               CallGetDeviceCapability]\<rparr>)"
    if "get_min_capability qc \<le> major * 10 + minor"
    using that assms(3-6)
    by (simp add: gate validate_quantization_checked bindE_def returnE_def
        split: sum.split prod.split)
  have outside: "get_model env cfg w =
        (Inl (ValueError
           [DtypeVal (dtype cfg), Text '' is not supported for quantization '',
            Text ''method '', StrVal q, Text ''. Supported dtypes: '',
            DtypeList (get_supported_act_dtypes qc)]),
         w\<lparr>trace := trace w @ [CallGetQuantConfig q (model cfg) (download_dir cfg),
                                CallGetDeviceCapability]\<rparr>)"
    if "get_min_capability qc \<le> major * 10 + minor"
      and "dtype cfg \<notin> set (get_supported_act_dtypes qc)"
    using that(2) by (simp add: checked [OF that(1)] check_act_dtype_def bindE_def raise_def)
  have inside: "get_model env cfg w =
        build_model env cfg cls (Some qc)
          (w\<lparr>trace := trace w @ [CallGetQuantConfig q (model cfg) (download_dir cfg),
                                 CallGetDeviceCapability]\<rparr>)"
    if "get_min_capability qc \<le> major * 10 + minor"
      and "dtype cfg \<in> set (get_supported_act_dtypes qc)"
    using that(2) by (simp add: checked [OF that(1)] check_act_dtype_def bindE_def returnE_def)
  from below outside inside show ?thesis by blast
qed

text \<open>
  Mistral with \<open>awq\<close> (minimum 80, float16 only): capability 75 is rejected with the
  capability error; capability 86 passes, and it is then the dtype test that rejects
  bfloat16 and lets float16 through to the construction.
\<close>

theorem capability_check_witness:
  "get_model old_gpu_env (config_of [''MistralForCausalLM''] ''auto'' (Some ''awq'') torch_float16)
       world0 =
     (Inl (ValueError
        [Text ''The quantization method '', StrVal ''awq'', Text '' is not '',
         Text ''supported for the current GPU. '',
         Text ''Minimum capability: '', IntVal 80, Text ''. '',
         Text ''Current capability: '', IntVal 75, Text ''.'']),
      \<lparr>default_dtype = torch_float32,
       trace = [CallGetQuantConfig ''awq'' ''checkpoint'' None, CallGetDeviceCapability]\<rparr>) \<and>
   get_model ok_env (config_of [''MistralForCausalLM''] ''auto'' (Some ''awq'') torch_bfloat16)
       world0 =
     (Inl (ValueError
        [DtypeVal torch_bfloat16, Text '' is not supported for quantization '',
         Text ''method '', StrVal ''awq'', Text ''. Supported dtypes: '',
         DtypeList [torch_float16]]),
      \<lparr>default_dtype = torch_float32,
       trace = [CallGetQuantConfig ''awq'' ''checkpoint'' None, CallGetDeviceCapability]\<rparr>) \<and>
   get_model ok_env (config_of [''MistralForCausalLM''] ''auto'' (Some ''awq'') torch_float16)
       world0 =
     build_model ok_env (config_of [''MistralForCausalLM''] ''auto'' (Some ''awq'') torch_float16)
       MistralForCausalLM (Some awq_config)
       \<lparr>default_dtype = torch_float32,
        trace = [CallGetQuantConfig ''awq'' ''checkpoint'' None, CallGetDeviceCapability]\<rparr>"
  using capability_check [of "config_of [''MistralForCausalLM''] ''auto'' (Some ''awq'') torch_float16"
      MistralForCausalLM "''awq''" old_gpu_env awq_config 7 5 world0]
    capability_check [of "config_of [''MistralForCausalLM''] ''auto'' (Some ''awq'') torch_bfloat16"
      MistralForCausalLM "''awq''" ok_env awq_config 8 6 world0]
    capability_check [of "config_of [''MistralForCausalLM''] ''auto'' (Some ''awq'') torch_float16"
      MistralForCausalLM "''awq''" ok_env awq_config 8 6 world0]
  by (simp add: resolve_examples config_of_simps capability_defs example_defs old_gpu_env_def)

text \<open>
  C6. In a quantized load whose capability check has passed, a requested dtype outside
  \<open>get_supported_act_dtypes()\<close> raises the \<open>ValueError\<close> that reports the dtype and the
  supported list; a dtype in the list lets the load go on to lines 101 to 126 with the
  loaded quantization config, and once the memory report has been printed the
  implementation is constructed with that config as its second argument.
\<close>

theorem act_dtype_check:
  assumes "get_model_architecture (hf_config cfg) = Inr cls"
    and "\<not> (load_format cfg = ''tensorizer'' \<and> cls \<notin> set MODEL_CLASSES_SUPPORT_TENSORIZER)"
    and "quantization cfg = Some q"
    and "cls \<in> set MODEL_CLASSES_SUPPORT_QUANTIZATION"
    and "get_quant_config env q (model cfg) (download_dir cfg) = Inr qc"
    and "get_device_capability env = Inr (major, minor)"
    and "get_min_capability qc \<le> major * 10 + minor"
  shows "(dtype cfg \<notin> set (get_supported_act_dtypes qc) \<longrightarrow>
      get_model env cfg w =
        (Inl (ValueError
           [DtypeVal (dtype cfg), Text '' is not supported for quantization '',
            Text ''method '', StrVal q, Text ''. Supported dtypes: '',
            DtypeList (get_supported_act_dtypes qc)]),
         w\<lparr>trace := trace w @ [CallGetQuantConfig q (model cfg) (download_dir cfg),
                                CallGetDeviceCapability]\<rparr>)) \<and>
    (dtype cfg \<in> set (get_supported_act_dtypes qc) \<longrightarrow>
      get_model env cfg w =
        build_model env cfg cls (Some qc)
          (w\<lparr>trace := trace w @ [CallGetQuantConfig q (model cfg) (download_dir cfg),
                                 CallGetDeviceCapability]\<rparr>) \<and>
      (\<forall>s. get_mem_usage env = Inr s \<longrightarrow>
         take (length (trace w) + 5) (trace (snd (get_model env cfg w))) =
           trace w @
           [CallGetQuantConfig q (model cfg) (download_dir cfg), CallGetDeviceCapability,
            PrintMemUsage, SetDefaultDtype (dtype cfg),
            Construct cls [ConfigArg (hf_config cfg), QuantArg (Some qc)]
              (load_format cfg = ''tensorizer'')]))"
proof -
  have "get_model env cfg w =
      bindE (validate_quantization env cfg cls) (build_model env cfg cls) w"
    using assms(1,2) by (rule get_model_past_gate)
  then have eq: "get_model env cfg w =
      bindE (check_act_dtype cfg q qc) (\<lambda>qc. build_model env cfg cls (Some qc))
          (w\<lparr>trace := trace w @ [CallGetQuantConfig q (model cfg) (download_dir cfg),
                                 CallGetDeviceCapability]\<rparr>)"
    using assms(3-7)
    by (simp add: validate_quantization_checked bindE_def returnE_def split: sum.split prod.split)
  show ?thesis
  proof (intro conjI impI allI)
    assume "dtype cfg \<notin> set (get_supported_act_dtypes qc)"
    then show "get_model env cfg w =
        (Inl (ValueError
           [DtypeVal (dtype cfg), Text '' is not supported for quantization '',
            Text ''method '', StrVal q, Text ''. Supported dtypes: '',
            DtypeList (get_supported_act_dtypes qc)]),
         w\<lparr>trace := trace w @ [CallGetQuantConfig q (model cfg) (download_dir cfg),
                                CallGetDeviceCapability]\<rparr>)"
      by (simp add: eq check_act_dtype_def bindE_def raise_def)
  next
    assume "dtype cfg \<in> set (get_supported_act_dtypes qc)"
    then show "get_model env cfg w =
        build_model env cfg cls (Some qc)
          (w\<lparr>trace := trace w @ [CallGetQuantConfig q (model cfg) (download_dir cfg),
                                 CallGetDeviceCapability]\<rparr>)"
      by (simp add: eq check_act_dtype_def bindE_def returnE_def)
  next
    fix s
    assume "dtype cfg \<in> set (get_supported_act_dtypes qc)" and "get_mem_usage env = Inr s"
    then show "take (length (trace w) + 5) (trace (snd (get_model env cfg w))) =
           trace w @
           [CallGetQuantConfig q (model cfg) (download_dir cfg), CallGetDeviceCapability,
            PrintMemUsage, SetDefaultDtype (dtype cfg),
            Construct cls [ConfigArg (hf_config cfg), QuantArg (Some qc)]
              (load_format cfg = ''tensorizer'')]"
      using assms(4)
      by (simp add: eq check_act_dtype_def build_model_def create_and_load_def model_func_args_def
          effect_defs collab_defs split: sum.split option.split prod.split)
  qed
qed

text \<open>
  Mistral with \<open>awq\<close>, which supports float16 only: bfloat16 is rejected, float16 goes
  on to the quantized construction.
\<close>

theorem act_dtype_check_witness:
  "get_model ok_env (config_of [''MistralForCausalLM''] ''auto'' (Some ''awq'') torch_bfloat16)
       world0 =
     (Inl (ValueError
        [DtypeVal torch_bfloat16, Text '' is not supported for quantization '',
         Text ''method '', StrVal ''awq'', Text ''. Supported dtypes: '',
         DtypeList [torch_float16]]),
      \<lparr>default_dtype = torch_float32,
       trace = [CallGetQuantConfig ''awq'' ''checkpoint'' None, CallGetDeviceCapability]\<rparr>) \<and>
   take 5 (trace (snd (get_model ok_env
       (config_of [''MistralForCausalLM''] ''auto'' (Some ''awq'') torch_float16) world0))) =
     [CallGetQuantConfig ''awq'' ''checkpoint'' None, CallGetDeviceCapability,
      PrintMemUsage, SetDefaultDtype torch_float16,
      Construct MistralForCausalLM
        [ConfigArg \<lparr>architectures = Present (PyList [''MistralForCausalLM''])\<rparr>,
         QuantArg (Some awq_config)] False]"
  using act_dtype_check [of "config_of [''MistralForCausalLM''] ''auto'' (Some ''awq'') torch_bfloat16"
      MistralForCausalLM "''awq''" ok_env awq_config 8 6 world0]
    act_dtype_check [of "config_of [''MistralForCausalLM''] ''auto'' (Some ''awq'') torch_float16"
      MistralForCausalLM "''awq''" ok_env awq_config 8 6 world0]
  by (auto simp add: resolve_examples config_of_simps capability_defs example_defs)

section \<open>Construction\<close>

text \<open>
  C3, as stated, fails: for an implementation in the quantization-capable list the
  quantization argument is always passed, and it is \<open>None\<close> when no scheme was
  requested. Llama without a scheme is constructed from two arguments, not from its
  configuration object alone.
\<close>

theorem llama_constructed_with_none_quant_argument:
  "quantization (config_of [''LlamaForCausalLM''] ''dummy'' None torch_float16) = None \<and>
   Construct LlamaForCausalLM
     [ConfigArg \<lparr>architectures = Present (PyList [''LlamaForCausalLM''])\<rparr>, QuantArg None] False
     \<in> set (trace (snd (get_model ok_env
           (config_of [''LlamaForCausalLM''] ''dummy'' None torch_float16) world0))) \<and>
   Construct LlamaForCausalLM
     [ConfigArg \<lparr>architectures = Present (PyList [''LlamaForCausalLM''])\<rparr>] False
     \<notin> set (trace (snd (get_model ok_env
           (config_of [''LlamaForCausalLM''] ''dummy'' None torch_float16) world0)))"
  by (simp add: get_model_resolved resolve_examples config_of_simps capability_defs
      validate_quantization_none build_model_def create_and_load_def model_func_args_def
      effect_defs collab_defs example_defs)

text \<open>
  C3 (amended). Whenever \<open>get_model\<close> calls a constructor, it is the constructor of the
  resolved implementation. An implementation outside
  \<open>_MODEL_CLASSES_SUPPORT_QUANTIZATION\<close> is constructed from the configuration object
  alone. An implementation in the list gets a second argument: \<open>None\<close> when no scheme
  was requested, and otherwise the quantization config that the loader returned and
  that passed the capability and dtype checks.
\<close>

theorem constructor_arguments:
  assumes "Construct c args d \<in>
      set (drop (length (trace w)) (trace (snd (get_model env cfg w))))"
  shows "get_model_architecture (hf_config cfg) = Inr c \<and>
    (c \<notin> set MODEL_CLASSES_SUPPORT_QUANTIZATION \<longrightarrow> args = [ConfigArg (hf_config cfg)]) \<and>
    (c \<in> set MODEL_CLASSES_SUPPORT_QUANTIZATION \<longrightarrow>
       (case quantization cfg of
          None \<Rightarrow> args = [ConfigArg (hf_config cfg), QuantArg None]
        | Some q \<Rightarrow>
            (\<exists>qc major minor.
               get_quant_config env q (model cfg) (download_dir cfg) = Inr qc \<and>
               get_device_capability env = Inr (major, minor) \<and>
               get_min_capability qc \<le> major * 10 + minor \<and>
               dtype cfg \<in> set (get_supported_act_dtypes qc) \<and>
               args = [ConfigArg (hf_config cfg), QuantArg (Some qc)])))"
proof (cases "get_model_architecture (hf_config cfg)")
  case (Inl e)
  with assms show ?thesis by (simp add: get_model_unresolved)
next
  case (Inr cls)
  show ?thesis
  proof (cases "load_format cfg = ''tensorizer'' \<and> cls \<notin> set MODEL_CLASSES_SUPPORT_TENSORIZER")
    case True
    with Inr assms show ?thesis by (simp add: get_model_resolved)
  next
    case False
    with Inr have eq: "get_model env cfg w =
        bindE (validate_quantization env cfg cls) (build_model env cfg cls) w"
      by (rule get_model_past_gate)
    obtain r w1 where v: "validate_quantization env cfg cls w = (r, w1)"
      by (cases "validate_quantization env cfg cls w")
    from validate_quantization_state [where env = env and cfg = cfg and cls = cls and w = w] v
    have ext: "take (length (trace w)) (trace w1) = trace w"
      and old: "Construct c args d \<notin> set (drop (length (trace w)) (trace w1))"
      by (auto split: option.splits)
    show ?thesis
    proof (cases r)
      case (Inl e)
      with v eq have "get_model env cfg w = (Inl e, w1)"
        by (simp add: bindE_def)
      with assms old show ?thesis by simp
    next
      case r: (Inr qco)
      with v eq have res: "get_model env cfg w = build_model env cfg cls qco w1"
        by (simp add: bindE_def)
      have "set (drop (length (trace w)) (trace (snd (build_model env cfg cls qco w1)))) =
          set (drop (length (trace w)) (trace w1)) \<union>
          set (drop (length (trace w1)) (trace (snd (build_model env cfg cls qco w1))))"
        using ext build_model_extends by (rule set_drop_trans)
      with assms res old
      have "Construct c args d \<in>
          set (drop (length (trace w1)) (trace (snd (build_model env cfg cls qco w1))))"
        by simp
      with build_model_events [where w = w1 and env = env and cfg = cfg and cls = cls and qc = qco]
      have c: "c = cls" and args: "args = model_func_args cfg cls qco"
        by auto
      from validate_quantization_result [where env = env and cfg = cfg and cls = cls and w = w] v r
      have q: "case quantization cfg of
          None \<Rightarrow> qco = None
        | Some q \<Rightarrow>
            cls \<in> set MODEL_CLASSES_SUPPORT_QUANTIZATION \<and>
            (\<exists>qc major minor.
               qco = Some qc \<and>
               get_quant_config env q (model cfg) (download_dir cfg) = Inr qc \<and>
               get_device_capability env = Inr (major, minor) \<and>
               get_min_capability qc \<le> major * 10 + minor \<and>
               dtype cfg \<in> set (get_supported_act_dtypes qc))"
        by simp
      show ?thesis
      proof (cases "quantization cfg")
        case None
        with q Inr c args show ?thesis by (simp add: model_func_args_def)
      next
        case (Some s)
        with q Inr c args show ?thesis by (auto simp add: model_func_args_def)
      qed
    qed
  qed
qed

text \<open>Mistral with \<open>awq\<close> on a capable accelerator is constructed with the loaded config.\<close>

theorem constructor_arguments_witness:
  "Construct MistralForCausalLM
     [ConfigArg \<lparr>architectures = Present (PyList [''MistralForCausalLM''])\<rparr>,
      QuantArg (Some awq_config)] False
     \<in> set (drop (length (trace world0)) (trace (snd (get_model ok_env
           (config_of [''MistralForCausalLM''] ''auto'' (Some ''awq'') torch_float16) world0)))) \<and>
   get_model_architecture
     (hf_config (config_of [''MistralForCausalLM''] ''auto'' (Some ''awq'') torch_float16)) =
     Inr MistralForCausalLM \<and>
   MistralForCausalLM \<in> set MODEL_CLASSES_SUPPORT_QUANTIZATION \<and>
   get_quant_config ok_env ''awq'' ''checkpoint'' None = Inr awq_config"
proof -
  have h: "Construct MistralForCausalLM
     [ConfigArg \<lparr>architectures = Present (PyList [''MistralForCausalLM''])\<rparr>,
      QuantArg (Some awq_config)] False
     \<in> set (drop (length (trace world0)) (trace (snd (get_model ok_env
           (config_of [''MistralForCausalLM''] ''auto'' (Some ''awq'') torch_float16) world0))))"
    by (simp add: get_model_resolved resolve_examples config_of_simps capability_defs
        validate_quantization_def check_act_dtype_def build_model_def create_and_load_def
        model_func_args_def effect_defs collab_defs example_defs)
  from constructor_arguments [OF h] h show ?thesis
    by (simp add: capability_defs example_defs)
qed

section \<open>The dummy load\<close>

text \<open>
  C8. For candidates \<open>["LlamaForCausalLM"]\<close>, load format \<open>dummy\<close> and no quantization
  scheme, \<open>get_model\<close> calls neither the quantization config loader nor the capability
  query; and when no collaborator raises, it returns a model that is on the accelerator,
  in inference mode and holds dummy weights, having called \<open>cuda\<close> before
  \<open>initialize_dummy_weights\<close>.
\<close>

theorem dummy_load_scenario:
  assumes "architectures (hf_config cfg) = Present (PyList [''LlamaForCausalLM''])"
    and "load_format cfg = ''dummy''"
    and "quantization cfg = None"
  shows "(CallGetDeviceCapability \<notin>
        set (drop (length (trace w)) (trace (snd (get_model env cfg w)))) \<and>
      (\<forall>q n d. CallGetQuantConfig q n d \<notin>
        set (drop (length (trace w)) (trace (snd (get_model env cfg w)))))) \<and>
    ((\<exists>s. get_mem_usage env = Inr s) \<and>
     (\<forall>c a b. construct_raises env c a b = None) \<and>
     (\<forall>m. cuda_raises env m = None) \<and>
     (\<forall>m. initialize_dummy_weights_raises env m = None) \<and>
     (\<forall>m. eval_raises env m = None) \<longrightarrow>
     get_model env cfg w =
       (Inr \<lparr>m_class = LlamaForCausalLM,
             m_args = [ConfigArg (hf_config cfg), QuantArg None],
             m_no_init = False, m_on_device = True, m_training = False,
             m_weights = DummyWeights\<rparr>,
        w\<lparr>trace := trace w @
           [PrintMemUsage, SetDefaultDtype (dtype cfg),
            Construct LlamaForCausalLM [ConfigArg (hf_config cfg), QuantArg None] False,
            Cuda, InitializeDummyWeights, SetDefaultDtype (default_dtype w), Eval]\<rparr>))"
proof -
  from assms(1) have "get_model_architecture (hf_config cfg) = Inr LlamaForCausalLM"
    by (simp add: get_model_architecture_def MODEL_REGISTRY_def)
  moreover from assms(2) have "\<not> (load_format cfg = ''tensorizer'' \<and>
      LlamaForCausalLM \<notin> set MODEL_CLASSES_SUPPORT_TENSORIZER)"
    by simp
  ultimately have "get_model env cfg w =
      bindE (validate_quantization env cfg LlamaForCausalLM)
        (build_model env cfg LlamaForCausalLM) w"
    by (rule get_model_past_gate)
  with assms(3) have eq: "get_model env cfg w = build_model env cfg LlamaForCausalLM None w"
    by (simp add: validate_quantization_none bindE_def)
  have first: "CallGetDeviceCapability \<notin>
        set (drop (length (trace w)) (trace (snd (get_model env cfg w)))) \<and>
      (\<forall>q n d. CallGetQuantConfig q n d \<notin>
        set (drop (length (trace w)) (trace (snd (get_model env cfg w)))))"
    using build_model_events [where w = w and env = env and cfg = cfg and cls = LlamaForCausalLM and qc = None] unfolding eq by auto
  have second: "get_model env cfg w =
       (Inr \<lparr>m_class = LlamaForCausalLM,
             m_args = [ConfigArg (hf_config cfg), QuantArg None],
             m_no_init = False, m_on_device = True, m_training = False,
             m_weights = DummyWeights\<rparr>,
        w\<lparr>trace := trace w @
           [PrintMemUsage, SetDefaultDtype (dtype cfg),
            Construct LlamaForCausalLM [ConfigArg (hf_config cfg), QuantArg None] False,
            Cuda, InitializeDummyWeights, SetDefaultDtype (default_dtype w), Eval]\<rparr>)"
    if "(\<exists>s. get_mem_usage env = Inr s) \<and>
     (\<forall>c a b. construct_raises env c a b = None) \<and>
     (\<forall>m. cuda_raises env m = None) \<and>
     (\<forall>m. initialize_dummy_weights_raises env m = None) \<and>
     (\<forall>m. eval_raises env m = None)"
    using that assms(2) unfolding eq
    by (auto simp add: build_model_def create_and_load_def model_func_args_def capability_defs
        effect_defs collab_defs)
  from first second show ?thesis by blast
qed

text \<open>The scenario with dtype float16 in the environment where every call succeeds.\<close>

theorem dummy_load_scenario_witness:
  "get_model ok_env (config_of [''LlamaForCausalLM''] ''dummy'' None torch_float16) world0 =
     (Inr \<lparr>m_class = LlamaForCausalLM,
           m_args = [ConfigArg \<lparr>architectures = Present (PyList [''LlamaForCausalLM''])\<rparr>,
                     QuantArg None],
           m_no_init = False, m_on_device = True, m_training = False,
           m_weights = DummyWeights\<rparr>,
      \<lparr>default_dtype = torch_float32,
       trace =
         [PrintMemUsage, SetDefaultDtype torch_float16,
          Construct LlamaForCausalLM
            [ConfigArg \<lparr>architectures = Present (PyList [''LlamaForCausalLM''])\<rparr>, QuantArg None]
            False,
          Cuda, InitializeDummyWeights, SetDefaultDtype torch_float32, Eval]\<rparr>)"
  using dummy_load_scenario [where cfg = "config_of [''LlamaForCausalLM''] ''dummy'' None torch_float16"
      and w = world0 and env = ok_env]
  by (simp add: config_of_simps example_defs)

section \<open>The default dtype\<close>

text \<open>
  C9. A \<open>ValueError\<close> raised by \<open>get_model\<close> itself (unsupported architecture, load
  format, quantization, accelerator capability or dtype) leaves the default dtype as it
  was, and \<open>torch.set_default_dtype\<close> has not been called at all during the operation.
\<close>

theorem validation_errors_leave_default_dtype_untouched:
  assumes "fst (get_model env cfg w) = Inl (ValueError msg)"
  shows "default_dtype (snd (get_model env cfg w)) = default_dtype w \<and>
    (\<forall>d. SetDefaultDtype d \<notin>
       set (drop (length (trace w)) (trace (snd (get_model env cfg w)))))"
proof (cases "get_model_architecture (hf_config cfg)")
  case (Inl e)
  then show ?thesis by (simp add: get_model_unresolved)
next
  case (Inr cls)
  show ?thesis
  proof (cases "load_format cfg = ''tensorizer'' \<and> cls \<notin> set MODEL_CLASSES_SUPPORT_TENSORIZER")
    case True
    with Inr show ?thesis by (simp add: get_model_resolved)
  next
    case False
    with Inr have eq: "get_model env cfg w =
        bindE (validate_quantization env cfg cls) (build_model env cfg cls) w"
      by (rule get_model_past_gate)
    obtain r w1 where v: "validate_quantization env cfg cls w = (r, w1)"
      by (cases "validate_quantization env cfg cls w")
    show ?thesis
    proof (cases r)
      case (Inl e)
      with v eq have res: "get_model env cfg w = (Inl e, w1)"
        by (simp add: bindE_def)
      from validate_quantization_state [where env = env and cfg = cfg and cls = cls and w = w] v
      have "default_dtype w1 = default_dtype w"
        and "\<forall>d. SetDefaultDtype d \<notin> set (drop (length (trace w)) (trace w1))"
        by (auto split: option.splits)
      with res show ?thesis by simp
    next
      case (Inr qco)
      with v eq have "get_model env cfg w = build_model env cfg cls qco w1"
        by (simp add: bindE_def)
      with assms show ?thesis
        by (simp add: build_model_never_ValueError)
    qed
  qed
qed

text \<open>The capability error of Mistral with \<open>awq\<close> on an accelerator of capability 75.\<close>

theorem validation_errors_leave_default_dtype_untouched_witness:
  "fst (get_model old_gpu_env
          (config_of [''MistralForCausalLM''] ''auto'' (Some ''awq'') torch_float16) world0) =
     Inl (ValueError
        [Text ''The quantization method '', StrVal ''awq'', Text '' is not '',
         Text ''supported for the current GPU. '',
         Text ''Minimum capability: '', IntVal 80, Text ''. '',
         Text ''Current capability: '', IntVal 75, Text ''.'']) \<and>
   default_dtype (snd (get_model old_gpu_env
          (config_of [''MistralForCausalLM''] ''auto'' (Some ''awq'') torch_float16) world0)) =
     default_dtype world0 \<and>
   SetDefaultDtype torch_float16 \<notin>
     set (drop (length (trace world0)) (trace (snd (get_model old_gpu_env
          (config_of [''MistralForCausalLM''] ''auto'' (Some ''awq'') torch_float16) world0))))"
proof -
  have h: "fst (get_model old_gpu_env
          (config_of [''MistralForCausalLM''] ''auto'' (Some ''awq'') torch_float16) world0) =
     Inl (ValueError
        [Text ''The quantization method '', StrVal ''awq'', Text '' is not '',
         Text ''supported for the current GPU. '',
         Text ''Minimum capability: '', IntVal 80, Text ''. '',
         Text ''Current capability: '', IntVal 75, Text ''.''])"
    by (simp add: get_model_resolved resolve_examples config_of_simps capability_defs
        validate_quantization_def effect_defs example_defs old_gpu_env_def)
  from validation_errors_leave_default_dtype_untouched [OF h] h show ?thesis by blast
qed

text \<open>
  When \<open>get_model\<close> returns a model, the default dtype is what it was before the call.
\<close>

lemma get_model_returns_restores_dtype:
  assumes "get_model env cfg w = (Inr m, w')"
  shows "default_dtype w' = default_dtype w"
proof (cases "get_model_architecture (hf_config cfg)")
  case (Inl e)
  with assms show ?thesis by (simp add: get_model_unresolved)
next
  case (Inr cls)
  show ?thesis
  proof (cases "load_format cfg = ''tensorizer'' \<and> cls \<notin> set MODEL_CLASSES_SUPPORT_TENSORIZER")
    case True
    with Inr assms show ?thesis by (simp add: get_model_resolved)
  next
    case False
    with Inr have eq: "get_model env cfg w =
        bindE (validate_quantization env cfg cls) (build_model env cfg cls) w"
      by (rule get_model_past_gate)
    obtain r w1 where v: "validate_quantization env cfg cls w = (r, w1)"
      by (cases "validate_quantization env cfg cls w")
    from validate_quantization_state [where env = env and cfg = cfg and cls = cls and w = w] v
    have same: "default_dtype w1 = default_dtype w"
      by simp
    show ?thesis
    proof (cases r)
      case (Inl e)
      with v eq assms show ?thesis by (simp add: bindE_def)
    next
      case r: (Inr qco)
      with v eq assms have "build_model env cfg cls qco w1 = (Inr m, w')"
        by (simp add: bindE_def)
      with build_model_restores [where env = env and cfg = cfg and cls = cls and qc = qco and w = w1]
      have "default_dtype w' = default_dtype w1"
        by simp
      with same show ?thesis by simp
    qed
  qed
qed

text \<open>
  C1. The claim is that the default dtype after \<open>get_model\<close> returns or raises equals
  its value before. The code restores it only when the body of the \<open>with\<close> statement
  returns: Llama with format \<open>auto\<close> and dtype float16, in a process whose default dtype
  is float32 and where \<open>load_weights\<close> raises, ends with the default dtype float16.
\<close>

theorem default_dtype_not_restored_when_loading_raises:
  "default_dtype world0 = torch_float32 \<and>
   get_model missing_checkpoint_env (config_of [''LlamaForCausalLM''] ''auto'' None torch_float16)
       world0 =
     (Inl (Propagated ''checkpoint not found''),
      \<lparr>default_dtype = torch_float16,
       trace =
         [PrintMemUsage, SetDefaultDtype torch_float16,
          Construct LlamaForCausalLM
            [ConfigArg \<lparr>architectures = Present (PyList [''LlamaForCausalLM''])\<rparr>, QuantArg None]
            False,
          LoadWeights ''checkpoint'' None ''auto'' None None]\<rparr>)"
  by (simp add: get_model_resolved resolve_examples config_of_simps capability_defs
      validate_quantization_none build_model_def create_and_load_def model_func_args_def
      effect_defs collab_defs example_defs missing_checkpoint_env_def)

end
